theory Spec2Isabelle
  imports Complex_Main "HOL-Library.Multiset"
begin

section \<open>Conventions of the embedding\<close>

text \<open>
  The handlers of the shop backend are embedded as pure functions from the request, the
  session and the two JSON files to a response, the new session, the new files and the
  list of files that \<open>writeData\<close> was called on.

  \<^item> JavaScript numbers that carry money (\<open>price\<close>, \<open>subtotal\<close>, ...) are exact
    rationals; quantities, stock levels and page numbers are integers. The rounding of
    IEEE doubles is not part of the model, \<open>NaN\<close> and non-numeric JSON values are not
    inputs of it.
  \<^item> An ISO timestamp is the integer number of milliseconds that \<open>new Date(...)\<close>
    reads from it.
  \<^item> A field that a handler tests for truthiness is a string, with the empty string for
    a missing or empty field; an optional body or query parameter is an \<open>option\<close>.
  \<^item> A collection read from disk is a list of well-formed records (every product has
    its \<open>images\<close> array), so the \<open>catch\<close> branch of a handler, which answers 500, is
    never taken and is left out.
\<close>

section \<open>Array helpers\<close>

text \<open>\<open>Array.prototype.findIndex\<close>; \<open>None\<close> stands for the result \<open>-1\<close>.\<close>

fun findIndex :: "('a \<Rightarrow> bool) \<Rightarrow> 'a list \<Rightarrow> nat option" where
  "findIndex P [] = None"
| "findIndex P (x # xs) = (if P x then Some 0 else map_option Suc (findIndex P xs))"

text \<open>\<open>arr.splice(i, 1)\<close> for an index inside the array.\<close>

definition splice1 :: "nat \<Rightarrow> 'a list \<Rightarrow> 'a list" where
  "splice1 i xs = take i xs @ drop (Suc i) xs"

text \<open>
  \<open>Array.prototype.slice(start, end)\<close> on integer arguments: a negative argument counts
  from the end of the array, and both are clamped to the array.
\<close>

definition slice_index :: "int \<Rightarrow> int \<Rightarrow> nat" where
  "slice_index len k = nat (if k < 0 then max (len + k) 0 else min k len)"

definition slice :: "'a list \<Rightarrow> int \<Rightarrow> int \<Rightarrow> 'a list" where
  "slice xs start stop =
     (let len = int (length xs);
          lo = slice_index len start;
          hi = slice_index len stop
      in take (hi - lo) (drop lo xs))"

text \<open>
  \<open>Array.prototype.sort(cmp)\<close> is a stable sort; \<open>cmp a b\<close> is the comparator's number.
  The model inserts each element before the first one it does not have to follow
  (\<open>cmp x y \<le> 0\<close>). The comparators of this program subtract a key of one element from
  the key of the other, and for such a comparator every stable sort returns this list.
\<close>

fun js_insert :: "('a \<Rightarrow> 'a \<Rightarrow> rat) \<Rightarrow> 'a \<Rightarrow> 'a list \<Rightarrow> 'a list" where
  "js_insert cmp x [] = [x]"
| "js_insert cmp x (y # ys) = (if cmp x y \<le> 0 then x # y # ys else y # js_insert cmp x ys)"

definition js_sort :: "('a \<Rightarrow> 'a \<Rightarrow> rat) \<Rightarrow> 'a list \<Rightarrow> 'a list" where
  "js_sort cmp xs = foldr (js_insert cmp) xs []"

text \<open>\<open>Math.round(x * 100) / 100\<close>: \<open>Math.round\<close> rounds a half towards plus infinity.\<close>

definition Math_round :: "rat \<Rightarrow> int" where
  "Math_round x = \<lfloor>x + 1 / 2\<rfloor>"

definition round2 :: "rat \<Rightarrow> rat" where
  "round2 x = of_int (Math_round (x * 100)) / 100"

section \<open>Data model\<close>

record product =
  p_id :: string
  p_name :: string
  p_description :: string
  p_price :: rat
  p_originalPrice :: rat
  p_category :: string
  p_subcategory :: string
  p_brand :: string
  p_images :: "string list"
  p_stock :: int
  p_rating :: rat
  p_featured :: bool
  p_tags :: "string list"
  p_createdAt :: int

record cart_item =
  productId :: string
  quantity :: int
  addedAt :: int

record session_user =
  u_id :: string
  u_name :: string
  u_email :: string
  u_role :: string

text \<open>\<open>req.session\<close>: \<open>user\<close> and \<open>cart\<close> are \<open>None\<close> while the session has not set them.\<close>

record session =
  user :: "session_user option"
  cart :: "cart_item list option"

record address =
  street :: string
  city :: string
  state :: string
  zipCode :: string

record order_item =
  oi_productId :: string
  oi_name :: string
  oi_price :: rat
  oi_quantity :: int
  oi_image :: string

record status_entry =
  se_status :: string
  se_timestamp :: int
  se_note :: string

record order =
  o_id :: string
  o_orderNumber :: string
  o_userId :: string
  o_customerName :: string
  o_customerEmail :: string
  o_items :: "order_item list"
  o_shippingAddress :: address
  o_paymentMethod :: string
  o_subtotal :: rat
  o_shipping :: rat
  o_tax :: rat
  o_total :: rat
  o_status :: string
  o_statusHistory :: "status_entry list"
  o_createdAt :: int
  o_updatedAt :: int

section \<open>Flat-file store (\<open>utils/helpers\<close>)\<close>

text \<open>The two files of the data directory; \<open>None\<close> is a file that does not exist.\<close>

record store =
  products_json :: "product list option"
  orders_json :: "order list option"

text \<open>\<open>readData\<close>: the parsed array, or \<open>[]\<close> when the file is absent.\<close>

definition readData :: "'a list option \<Rightarrow> 'a list" where
  "readData file = (case file of None \<Rightarrow> [] | Some xs \<Rightarrow> xs)"

text \<open>
  \<open>writeData\<close>: \<open>fs_ok\<close> says whether \<open>mkdirSync\<close> and \<open>writeFileSync\<close> go through. The
  function returns the file afterwards and the boolean of the source; a write that throws
  is caught, answers \<open>false\<close> and is taken to leave the file as it was.
\<close>

definition writeData :: "bool \<Rightarrow> 'a list option \<Rightarrow> 'a list \<Rightarrow> 'a list option \<times> bool" where
  "writeData fs_ok file data = (if fs_ok then (Some data, True) else (file, False))"

datatype file_name = PRODUCTS_FILE | ORDERS_FILE

section \<open>Responses\<close>

text \<open>
  \<open>res.status(c).json({error: e, ...})\<close> is \<open>Failure c e\<close>; a response with a payload is
  \<open>Success c payload\<close> (\<open>res.json\<close> alone answers 200).
\<close>

datatype 'a response = Failure nat string | Success nat 'a

fun status_code :: "'a response \<Rightarrow> nat" where
  "status_code (Failure c e) = c"
| "status_code (Success c x) = c"

text \<open>
  What a handler leaves behind: the response, the files it works on, the session, and the
  files \<open>writeData\<close> was called on, in order.
\<close>

record ('a, 's) outcome =
  resp :: "'a response"
  store_out :: 's
  session_out :: session
  writes :: "file_name list"

definition reject :: "nat \<Rightarrow> string \<Rightarrow> 's \<Rightarrow> session \<Rightarrow> ('a, 's) outcome" where
  "reject c e st sess = \<lparr>resp = Failure c e, store_out = st, session_out = sess, writes = []\<rparr>"

section \<open>Middleware (\<open>middleware/auth.js\<close>)\<close>

text \<open>
  \<open>next()\<close> is the handler that follows; it is given \<open>req.session.user\<close>, which the
  middleware has found to be there.
\<close>

definition requireAuth ::
  "'s \<Rightarrow> session \<Rightarrow> (session_user \<Rightarrow> ('a, 's) outcome) \<Rightarrow> ('a, 's) outcome" where
  "requireAuth st sess next =
     (case user sess of
        None \<Rightarrow> reject 401 ''Authentication required'' st sess
      | Some u \<Rightarrow> next u)"

definition requireAdmin ::
  "'s \<Rightarrow> session \<Rightarrow> (session_user \<Rightarrow> ('a, 's) outcome) \<Rightarrow> ('a, 's) outcome" where
  "requireAdmin st sess next =
     (case user sess of
        None \<Rightarrow> reject 401 ''Authentication required'' st sess
      | Some u \<Rightarrow> if u_role u \<noteq> ''admin'' then reject 403 ''Access denied'' st sess else next u)"

section \<open>Checkout (\<open>POST /api/orders\<close>)\<close>

record checkout_body =
  shippingAddress :: "address option"
  paymentMethod :: "string option"

text \<open>
  What the handler takes from outside: whether each of its two writes goes through, the
  value of \<open>generateId()\<close>, of \<open>Date.now().toString(36).toUpperCase()\<close> and of the three
  calls of \<open>getTimestamp()\<close>.
\<close>

record env =
  products_write_ok :: bool
  orders_write_ok :: bool
  generated_id :: string
  date_now_base36 :: string
  ts_history :: int
  ts_created :: int
  ts_updated :: int

datatype checkout_error = Product_not_found string | Insufficient_stock string

fun error_title :: "checkout_error \<Rightarrow> string" where
  "error_title (Product_not_found pid) = ''Product not found''"
| "error_title (Insufficient_stock name) = ''Insufficient stock''"

text \<open>\<open>product.images[0] || ''\<close>\<close>

definition first_image :: "product \<Rightarrow> string" where
  "first_image p = (case p_images p of [] \<Rightarrow> [] | img # _ \<Rightarrow> img)"

text \<open>
  The \<open>for (const cartItem of req.session.cart)\<close> loop. \<open>products.find\<close> answers the
  first product with the id, an object of the array, so \<open>product.stock -= ...\<close> changes
  the array at that index. A \<open>return res.status(400)\<close> inside the loop is \<open>Inl\<close>.
\<close>

fun checkout_loop ::
  "cart_item list \<Rightarrow> product list \<Rightarrow> order_item list \<Rightarrow> rat \<Rightarrow>
     checkout_error + (product list \<times> order_item list \<times> rat)" where
  "checkout_loop [] products orderItems subtotal = Inr (products, orderItems, subtotal)"
| "checkout_loop (cartItem # rest) products orderItems subtotal =
     (case findIndex (\<lambda>p. p_id p = productId cartItem) products of
        None \<Rightarrow> Inl (Product_not_found (productId cartItem))
      | Some i \<Rightarrow>
          (let product = products ! i in
           if p_stock product < quantity cartItem then Inl (Insufficient_stock (p_name product))
           else checkout_loop rest
                  (products[i := product\<lparr>p_stock := p_stock product - quantity cartItem\<rparr>])
                  (orderItems @ [\<lparr>oi_productId = p_id product, oi_name = p_name product,
                                  oi_price = p_price product, oi_quantity = quantity cartItem,
                                  oi_image = first_image product\<rparr>])
                  (subtotal + p_price product * of_int (quantity cartItem))))"

text \<open>The three lines under \<open>// Calculate totals\<close>, the same in checkout and in the cart.\<close>

definition shipping_of :: "rat \<Rightarrow> rat" where
  "shipping_of subtotal = (if subtotal > 100 then 0 else 999 / 100)"

definition tax_of :: "rat \<Rightarrow> rat" where
  "tax_of subtotal = subtotal * (8 / 100)"

definition total_of :: "rat \<Rightarrow> rat" where
  "total_of subtotal = subtotal + shipping_of subtotal + tax_of subtotal"

definition address_complete :: "address \<Rightarrow> bool" where
  "address_complete a \<longleftrightarrow> street a \<noteq> [] \<and> city a \<noteq> [] \<and> state a \<noteq> [] \<and> zipCode a \<noteq> []"

definition make_order ::
  "env \<Rightarrow> session_user \<Rightarrow> address \<Rightarrow> string option \<Rightarrow> order_item list \<Rightarrow> rat \<Rightarrow> order" where
  "make_order e u shipTo payBy orderItems subtotal =
     \<lparr>o_id = generated_id e,
      o_orderNumber = ''ORD-'' @ date_now_base36 e,
      o_userId = u_id u,
      o_customerName = u_name u,
      o_customerEmail = u_email u,
      o_items = orderItems,
      o_shippingAddress = shipTo,
      o_paymentMethod = (case payBy of None \<Rightarrow> ''card'' | Some m \<Rightarrow> m),
      o_subtotal = round2 subtotal,
      o_shipping = round2 (shipping_of subtotal),
      o_tax = round2 (tax_of subtotal),
      o_total = round2 (total_of subtotal),
      o_status = ''pending'',
      o_statusHistory = [\<lparr>se_status = ''pending'', se_timestamp = ts_history e,
                           se_note = ''Order placed''\<rparr>],
      o_createdAt = ts_created e,
      o_updatedAt = ts_updated e\<rparr>"

record order_ack =
  ack_id :: string
  ack_orderNumber :: string
  ack_total :: rat
  ack_status :: string

text \<open>
  The handler. Both results of \<open>writeData\<close> are dropped, as in the source, which calls
  it as a statement.
\<close>

definition create_order ::
  "env \<Rightarrow> checkout_body \<Rightarrow> store \<Rightarrow> session \<Rightarrow> (order_ack, store) outcome" where
  "create_order e body st sess =
     requireAuth st sess (\<lambda>u.
       case cart sess of
         None \<Rightarrow> reject 400 ''Empty cart'' st sess
       | Some [] \<Rightarrow> reject 400 ''Empty cart'' st sess
       | Some (item # items) \<Rightarrow>
          (case shippingAddress body of
             None \<Rightarrow> reject 400 ''Invalid address'' st sess
           | Some shipTo \<Rightarrow>
               if \<not> address_complete shipTo then reject 400 ''Invalid address'' st sess
               else
                (let products = readData (products_json st);
                     orders = readData (orders_json st)
                 in (case checkout_loop (item # items) products [] 0 of
                       Inl err \<Rightarrow> reject 400 (error_title err) st sess
                     | Inr (products', orderItems, subtotal) \<Rightarrow>
                        (let pfile = fst (writeData (products_write_ok e) (products_json st) products');
                             order = make_order e u shipTo (paymentMethod body) orderItems subtotal;
                             ofile = fst (writeData (orders_write_ok e) (orders_json st)
                                            (orders @ [order]))
                         in \<lparr>resp = Success 201
                                      \<lparr>ack_id = o_id order, ack_orderNumber = o_orderNumber order,
                                       ack_total = o_total order, ack_status = o_status order\<rparr>,
                             store_out = \<lparr>products_json = pfile, orders_json = ofile\<rparr>,
                             session_out = sess\<lparr>cart := Some []\<rparr>,
                             writes = [PRODUCTS_FILE, ORDERS_FILE]\<rparr>)))))"

section \<open>Order listing (\<open>GET /api/orders\<close>)\<close>

text \<open>
  \<open>status\<close> is \<open>req.query.status\<close>; \<open>if (status)\<close> is false for a missing parameter and
  for an empty one.
\<close>

definition get_orders ::
  "string option \<Rightarrow> store \<Rightarrow> session \<Rightarrow> (order list, store) outcome" where
  "get_orders status st sess =
     requireAuth st sess (\<lambda>u.
       let orders = readData (orders_json st);
           orders = (if u_role u \<noteq> ''admin'' then filter (\<lambda>ord. o_userId ord = u_id u) orders
                     else orders);
           orders = js_sort (\<lambda>a b. of_int (o_createdAt b) - of_int (o_createdAt a)) orders;
           orders = (case status of
                       None \<Rightarrow> orders
                     | Some s \<Rightarrow> if s \<noteq> [] then filter (\<lambda>ord. o_status ord = s) orders
                                 else orders)
       in \<lparr>resp = Success 200 orders, store_out = st, session_out = sess, writes = []\<rparr>)"

section \<open>Cart (\<open>/api/cart\<close>)\<close>

record cart_product =
  cp_id :: string
  cp_name :: string
  cp_price :: rat
  cp_originalPrice :: rat
  cp_image :: string
  cp_stock :: int

text \<open>\<open>{...item, product: {...}}\<close>\<close>

record cart_line =
  cl_productId :: string
  cl_quantity :: int
  cl_addedAt :: int
  cl_product :: cart_product

record cart_summary =
  itemCount :: int
  s_subtotal :: rat
  s_shipping :: rat
  s_tax :: rat
  s_total :: rat

record cart_view =
  cv_items :: "cart_line list"
  cv_summary :: cart_summary

text \<open>The callback of \<open>cart.map\<close>: \<open>None\<close> is its \<open>null\<close>.\<close>

definition enrich :: "product list \<Rightarrow> cart_item \<Rightarrow> cart_line option" where
  "enrich products item =
     (case find (\<lambda>p. p_id p = productId item) products of
        None \<Rightarrow> None
      | Some product \<Rightarrow>
          Some \<lparr>cl_productId = productId item, cl_quantity = quantity item,
                cl_addedAt = addedAt item,
                cl_product = \<lparr>cp_id = p_id product, cp_name = p_name product,
                              cp_price = p_price product,
                              cp_originalPrice = p_originalPrice product,
                              cp_image = first_image product, cp_stock = p_stock product\<rparr>\<rparr>)"

definition cart_summary_of :: "cart_line list \<Rightarrow> cart_summary" where
  "cart_summary_of cartItems =
     (let subtotal = foldl (\<lambda>sum item. sum + cp_price (cl_product item) * of_int (cl_quantity item))
                       0 cartItems
      in \<lparr>itemCount = foldl (\<lambda>sum item. sum + cl_quantity item) 0 cartItems,
          s_subtotal = round2 subtotal,
          s_shipping = round2 (shipping_of subtotal),
          s_tax = round2 (tax_of subtotal),
          s_total = round2 (total_of subtotal)\<rparr>)"

text \<open>\<open>GET /api/cart\<close>; \<open>.map(...).filter(Boolean)\<close> is \<open>List.map_filter\<close>.\<close>

definition get_cart :: "store \<Rightarrow> session \<Rightarrow> (cart_view, store) outcome" where
  "get_cart st sess =
     (let cart = (case cart sess of None \<Rightarrow> [] | Some c \<Rightarrow> c);
          products = readData (products_json st);
          cartItems = List.map_filter (enrich products) cart
      in \<lparr>resp = Success 200 \<lparr>cv_items = cartItems, cv_summary = cart_summary_of cartItems\<rparr>,
          store_out = st, session_out = sess, writes = []\<rparr>)"

text \<open>
  The body of the two cart requests: \<open>productId\<close> is empty when it is missing, \<open>quantity\<close>
  is \<open>None\<close> when it is \<open>undefined\<close>.
\<close>

record cart_body =
  b_productId :: string
  b_quantity :: "int option"

text \<open>\<open>req.session.cart.reduce((sum, item) => sum + item.quantity, 0)\<close>\<close>

definition cartCount :: "cart_item list \<Rightarrow> int" where
  "cartCount c = foldl (\<lambda>sum item. sum + quantity item) 0 c"

definition cart_ok :: "string \<Rightarrow> cart_item list \<Rightarrow> store \<Rightarrow> session \<Rightarrow> (int, store) outcome" where
  "cart_ok msg c st sess =
     \<lparr>resp = Success 200 (cartCount c), store_out = st,
      session_out = sess\<lparr>cart := Some c\<rparr>, writes = []\<rparr>"

text \<open>\<open>POST /api/cart/add\<close>; \<open>now\<close> is \<open>new Date()\<close>, and \<open>quantity\<close> defaults to 1.\<close>

definition add_to_cart :: "int \<Rightarrow> cart_body \<Rightarrow> store \<Rightarrow> session \<Rightarrow> (int, store) outcome" where
  "add_to_cart now body st sess =
     (let pid = b_productId body;
          qty = (case b_quantity body of None \<Rightarrow> 1 | Some q \<Rightarrow> q)
      in if pid = [] then reject 400 ''Missing product'' st sess
         else
          (case find (\<lambda>p. p_id p = pid) (readData (products_json st)) of
             None \<Rightarrow> reject 404 ''Not found'' st sess
           | Some product \<Rightarrow>
               if p_stock product < qty then reject 400 ''Out of stock'' st sess
               else
                (let c = (case cart sess of None \<Rightarrow> [] | Some c \<Rightarrow> c)
                 in (case findIndex (\<lambda>item. productId item = pid) c of
                       Some existingIndex \<Rightarrow>
                         (let newQuantity = quantity (c ! existingIndex) + qty
                          in if newQuantity > p_stock product
                             then reject 400 ''Stock limit'' st sess
                             else cart_ok ''Item added to cart''
                                    (c[existingIndex :=
                                         (c ! existingIndex)\<lparr>quantity := newQuantity\<rparr>])
                                    st sess)
                     | None \<Rightarrow>
                         cart_ok ''Item added to cart''
                           (c @ [\<lparr>productId = pid, quantity = qty, addedAt = now\<rparr>])
                           st sess))))"

text \<open>\<open>PUT /api/cart/update\<close>\<close>

definition update_cart :: "cart_body \<Rightarrow> store \<Rightarrow> session \<Rightarrow> (int, store) outcome" where
  "update_cart body st sess =
     (let pid = b_productId body in
      case b_quantity body of
        None \<Rightarrow> reject 400 ''Missing fields'' st sess
      | Some qty \<Rightarrow>
          if pid = [] then reject 400 ''Missing fields'' st sess
          else
           (case cart sess of
              None \<Rightarrow> reject 404 ''Empty cart'' st sess
            | Some c \<Rightarrow>
               (case findIndex (\<lambda>item. productId item = pid) c of
                  None \<Rightarrow> reject 404 ''Not in cart'' st sess
                | Some itemIndex \<Rightarrow>
                    if qty \<le> 0 then cart_ok ''Cart updated'' (splice1 itemIndex c) st sess
                    else
                     (case find (\<lambda>p. p_id p = pid) (readData (products_json st)) of
                        None \<Rightarrow>
                          cart_ok ''Cart updated''
                            (c[itemIndex := (c ! itemIndex)\<lparr>quantity := qty\<rparr>]) st sess
                      | Some product \<Rightarrow>
                          if qty > p_stock product then reject 400 ''Stock limit'' st sess
                          else cart_ok ''Cart updated''
                                 (c[itemIndex := (c ! itemIndex)\<lparr>quantity := qty\<rparr>])
                                 st sess))))"

text \<open>\<open>DELETE /api/cart/remove/:productId\<close> and \<open>DELETE /api/cart/clear\<close>\<close>

definition remove_from_cart :: "string \<Rightarrow> store \<Rightarrow> session \<Rightarrow> (int, store) outcome" where
  "remove_from_cart pid st sess =
     (case cart sess of
        None \<Rightarrow> reject 404 ''Empty cart'' st sess
      | Some c \<Rightarrow>
         (case findIndex (\<lambda>item. productId item = pid) c of
            None \<Rightarrow> reject 404 ''Not in cart'' st sess
          | Some itemIndex \<Rightarrow> cart_ok ''Item removed from cart'' (splice1 itemIndex c) st sess))"

definition clear_cart :: "store \<Rightarrow> session \<Rightarrow> (unit, store) outcome" where
  "clear_cart st sess =
     \<lparr>resp = Success 200 (), store_out = st, session_out = sess\<lparr>cart := Some []\<rparr>, writes = []\<rparr>"

section \<open>Catalog query (\<open>GET /api/products\<close>)\<close>

text \<open>\<open>String.prototype.toLowerCase\<close> on ASCII letters; other characters are kept.\<close>

definition toLowerCase :: "string \<Rightarrow> string" where
  "toLowerCase s =
     map (\<lambda>c. let n = (of_char c :: nat) in if 65 \<le> n \<and> n \<le> 90 then char_of (n + 32) else c) s"

text \<open>\<open>String.prototype.includes\<close>\<close>

fun str_includes :: "string \<Rightarrow> string \<Rightarrow> bool" where
  "str_includes [] sub = (sub = [])"
| "str_includes (c # cs) sub = (take (length sub) (c # cs) = sub \<or> str_includes cs sub)"

text \<open>
  \<open>req.query\<close>: a string parameter is empty when it is missing; \<open>minPrice\<close>, \<open>maxPrice\<close>,
  \<open>limit\<close> and \<open>page\<close> are the numbers that \<open>parseFloat\<close> and \<open>parseInt\<close> read, \<open>None\<close>
  when the parameter is missing or empty.
\<close>

record product_query =
  q_search :: string
  q_category :: string
  q_subcategory :: string
  q_brand :: string
  q_minPrice :: "rat option"
  q_maxPrice :: "rat option"
  q_sort :: string
  q_featured :: string
  q_limit :: "int option"
  q_page :: "int option"

definition filter_products :: "product_query \<Rightarrow> product list \<Rightarrow> product list" where
  "filter_products q products =
     (let products =
            (if q_search q \<noteq> [] then
               (let searchLower = toLowerCase (q_search q)
                in filter (\<lambda>p. str_includes (toLowerCase (p_name p)) searchLower \<or>
                                str_includes (toLowerCase (p_description p)) searchLower \<or>
                                list_ex (\<lambda>t. str_includes (toLowerCase t) searchLower) (p_tags p))
                     products)
             else products);
          products =
            (if q_category q \<noteq> [] then
               filter (\<lambda>p. toLowerCase (p_category p) = toLowerCase (q_category q)) products
             else products);
          products =
            (if q_subcategory q \<noteq> [] then
               filter (\<lambda>p. toLowerCase (p_subcategory p) = toLowerCase (q_subcategory q)) products
             else products);
          products =
            (if q_brand q \<noteq> [] then
               filter (\<lambda>p. toLowerCase (p_brand p) = toLowerCase (q_brand q)) products
             else products);
          products =
            (case q_minPrice q of None \<Rightarrow> products
             | Some lo \<Rightarrow> filter (\<lambda>p. p_price p \<ge> lo) products);
          products =
            (case q_maxPrice q of None \<Rightarrow> products
             | Some hi \<Rightarrow> filter (\<lambda>p. p_price p \<le> hi) products);
          products =
            (if q_featured q = ''true'' then filter p_featured products else products)
      in products)"

text \<open>
  The \<open>switch (sort)\<close>; \<open>localeCompare\<close> is the host's collation, taken as a parameter.
\<close>

definition sort_products ::
  "(string \<Rightarrow> string \<Rightarrow> int) \<Rightarrow> string \<Rightarrow> product list \<Rightarrow> product list" where
  "sort_products localeCompare key products =
     (if key = ''price-asc'' then js_sort (\<lambda>a b. p_price a - p_price b) products
      else if key = ''price-desc'' then js_sort (\<lambda>a b. p_price b - p_price a) products
      else if key = ''name-asc''
      then js_sort (\<lambda>a b. of_int (localeCompare (p_name a) (p_name b))) products
      else if key = ''name-desc''
      then js_sort (\<lambda>a b. of_int (localeCompare (p_name b) (p_name a))) products
      else if key = ''rating'' then js_sort (\<lambda>a b. p_rating b - p_rating a) products
      else if key = ''newest''
      then js_sort (\<lambda>a b. of_int (p_createdAt b) - of_int (p_createdAt a)) products
      else products)"

text \<open>
  A number of the response that need not be finite: \<open>Math.ceil(n / 0)\<close> is \<open>Infinity\<close>,
  and \<open>NaN\<close> for \<open>n = 0\<close>.
\<close>

datatype js_number = Finite int | Infinity | NaN

definition total_pages :: "int \<Rightarrow> int \<Rightarrow> js_number" where
  "total_pages totalProducts pageSize =
     (if pageSize = 0 then (if totalProducts = 0 then NaN else Infinity)
      else Finite \<lceil>(of_int totalProducts :: rat) / of_int pageSize\<rceil>)"

record pagination =
  pg_total :: int
  pg_page :: int
  pg_pageSize :: int
  pg_totalPages :: js_number

record product_page =
  pp_products :: "product list"
  pp_pagination :: pagination

definition paginate :: "product list \<Rightarrow> int option \<Rightarrow> int option \<Rightarrow> product_page" where
  "paginate products limit page =
     (let totalProducts = int (length products);
          pageSize = (case limit of None \<Rightarrow> 12 | Some l \<Rightarrow> l);
          pageNum = (case page of None \<Rightarrow> 1 | Some n \<Rightarrow> n);
          startIndex = (pageNum - 1) * pageSize;
          paginatedProducts = slice products startIndex (startIndex + pageSize)
      in \<lparr>pp_products = paginatedProducts,
          pp_pagination = \<lparr>pg_total = totalProducts, pg_page = pageNum, pg_pageSize = pageSize,
                            pg_totalPages = total_pages totalProducts pageSize\<rparr>\<rparr>)"

definition get_products ::
  "(string \<Rightarrow> string \<Rightarrow> int) \<Rightarrow> product_query \<Rightarrow> store \<Rightarrow> session \<Rightarrow>
     (product_page, store) outcome" where
  "get_products localeCompare q st sess =
     (let products = readData (products_json st);
          products = filter_products q products;
          products = (if q_sort q \<noteq> [] then sort_products localeCompare (q_sort q) products
                      else products)
      in \<lparr>resp = Success 200 (paginate products (q_limit q) (q_page q)),
          store_out = st, session_out = sess, writes = []\<rparr>)"

section \<open>Product update (\<open>PUT /api/products/:id\<close>)\<close>

text \<open>
  This handler copies whatever keys the request body has into the stored product, so here
  a product is the JSON object itself: a map from keys to values, with \<open>None\<close> for a key
  the object does not have (or has as \<open>undefined\<close>, which \<open>JSON.stringify\<close> drops).
\<close>

datatype json =
    JString string
  | JNumber rat
  | JBool bool
  | JNull
  | JArray "json list"
  | JObject "(string \<times> json) list"

type_synonym jobject = "string \<rightharpoonup> json"

text \<open>
  \<open>{...products[index], ...req.body, id: ..., createdAt: ..., updatedAt: getTimestamp()}\<close>:
  a later entry of the literal wins over an earlier one.
\<close>

definition updatedProduct :: "jobject \<Rightarrow> jobject \<Rightarrow> string \<Rightarrow> jobject" where
  "updatedProduct stored body now =
     (stored ++ body)
       (''id'' := stored ''id'', ''createdAt'' := stored ''createdAt'',
        ''updatedAt'' \<mapsto> JString now)"

text \<open>
  \<open>fs_ok\<close> says whether the write goes through, \<open>now\<close> is \<open>getTimestamp()\<close>, \<open>pid\<close> is
  \<open>req.params.id\<close>.
\<close>

definition update_product ::
  "bool \<Rightarrow> string \<Rightarrow> string \<Rightarrow> jobject \<Rightarrow> jobject list option \<Rightarrow> session \<Rightarrow>
     (jobject, jobject list option) outcome" where
  "update_product fs_ok now pid body file sess =
     requireAdmin file sess (\<lambda>u.
       let products = readData file
       in (case findIndex (\<lambda>p. p ''id'' = Some (JString pid)) products of
             None \<Rightarrow> reject 404 ''Not found'' file sess
           | Some index \<Rightarrow>
              (let updated = updatedProduct (products ! index) body now
               in \<lparr>resp = Success 200 updated,
                   store_out = fst (writeData fs_ok file (products[index := updated])),
                   session_out = sess,
                   writes = [PRODUCTS_FILE]\<rparr>)))"

section \<open>Example data\<close>

text \<open>
  The scenario of the specification: product \<open>P1\<close> costs 50 and has 5 in stock, and the
  cart holds two of it.
\<close>

definition ex_P1 :: product where
  "ex_P1 = \<lparr>p_id = ''P1'', p_name = ''Lamp'', p_description = ''Desk lamp'', p_price = 50,
            p_originalPrice = 60, p_category = ''Home'', p_subcategory = ''Lighting'',
            p_brand = ''Lumo'', p_images = [''lamp.png''], p_stock = 5, p_rating = 4,
            p_featured = False, p_tags = [''lamp''], p_createdAt = 1000\<rparr>"

definition ex_user :: session_user where
  "ex_user = \<lparr>u_id = ''U1'', u_name = ''Ann'', u_email = ''ann@example.org'',
              u_role = ''customer''\<rparr>"

definition ex_session :: session where
  "ex_session = \<lparr>user = Some ex_user,
                 cart = Some [\<lparr>productId = ''P1'', quantity = 2, addedAt = 1500\<rparr>]\<rparr>"

definition ex_address :: address where
  "ex_address = \<lparr>street = ''1 Main St'', city = ''Springfield'', state = ''IL'',
                 zipCode = ''62701''\<rparr>"

definition ex_body :: checkout_body where
  "ex_body = \<lparr>shippingAddress = Some ex_address, paymentMethod = None\<rparr>"

definition ex_env :: env where
  "ex_env = \<lparr>products_write_ok = True, orders_write_ok = True, generated_id = ''id1'',
             date_now_base36 = ''KX1'', ts_history = 2000, ts_created = 2000, ts_updated = 2000\<rparr>"

definition ex_store :: store where
  "ex_store = \<lparr>products_json = Some [ex_P1], orders_json = None\<rparr>"

text \<open>A cart whose second line names a product that is not in the catalog.\<close>

definition ex_session_dangling :: session where
  "ex_session_dangling =
     \<lparr>user = Some ex_user,
      cart = Some [\<lparr>productId = ''P1'', quantity = 2, addedAt = 1500\<rparr>,
                   \<lparr>productId = ''P9'', quantity = 1, addedAt = 1600\<rparr>]\<rparr>"






text \<open>Three orders of two customers, and an administrator.\<close>

definition ex_order1 :: order where
  "ex_order1 = \<lparr>o_id = ''o1'', o_orderNumber = ''ORD-A'', o_userId = ''U1'',
                o_customerName = ''Ann'', o_customerEmail = ''ann@example.org'', o_items = [],
                o_shippingAddress = ex_address, o_paymentMethod = ''card'', o_subtotal = 100,
                o_shipping = 999 / 100, o_tax = 8, o_total = 11799 / 100,
                o_status = ''pending'', o_statusHistory = [], o_createdAt = 100,
                o_updatedAt = 100\<rparr>"

definition ex_order2 :: order where
  "ex_order2 = ex_order1\<lparr>o_id := ''o2'', o_userId := ''U2'', o_status := ''shipped'',
                         o_createdAt := 300\<rparr>"

definition ex_order3 :: order where
  "ex_order3 = ex_order1\<lparr>o_id := ''o3'', o_status := ''shipped'', o_createdAt := 200\<rparr>"

definition ex_store_orders :: store where
  "ex_store_orders =
     \<lparr>products_json = Some [ex_P1], orders_json = Some [ex_order1, ex_order2, ex_order3]\<rparr>"

text \<open>
  A catalog of ten products, a collation for the examples (code-point order), and a query
  with no filter that asks for page 1 with \<open>limit=-5\<close>.
\<close>

definition ex_store10 :: store where
  "ex_store10 = \<lparr>products_json = Some (replicate 10 ex_P1), orders_json = None\<rparr>"

fun ex_localeCompare :: "string \<Rightarrow> string \<Rightarrow> int" where
  "ex_localeCompare [] [] = 0"
| "ex_localeCompare [] (b # bs) = - 1"
| "ex_localeCompare (a # as) [] = 1"
| "ex_localeCompare (a # as) (b # bs) =
     (if (of_char a :: nat) < of_char b then - 1
      else if (of_char b :: nat) < of_char a then 1
      else ex_localeCompare as bs)"

definition ex_query :: product_query where
  "ex_query = \<lparr>q_search = [], q_category = [], q_subcategory = [], q_brand = [],
               q_minPrice = None, q_maxPrice = None, q_sort = [], q_featured = [],
               q_limit = Some (- 5), q_page = Some 1\<rparr>"

text \<open>The same query with \<open>limit=4\<close> and \<open>page=4\<close>, one page beyond the last.\<close>

definition ex_query_beyond :: product_query where
  "ex_query_beyond = ex_query\<lparr>q_limit := Some 4, q_page := Some 4\<rparr>"

text \<open>
  A stored product as a JSON object, a request body that tries to change its \<open>id\<close> and
  \<open>createdAt\<close> along with its price, and the session of an administrator.
\<close>

definition ex_product_object :: jobject where
  "ex_product_object =
     [''id'' \<mapsto> JString ''P1'', ''name'' \<mapsto> JString ''Lamp'', ''price'' \<mapsto> JNumber 50,
      ''createdAt'' \<mapsto> JString ''2024-01-01T00:00:00.000Z'']"

definition ex_patch :: jobject where
  "ex_patch =
     [''id'' \<mapsto> JString ''P7'', ''createdAt'' \<mapsto> JString ''1999-01-01T00:00:00.000Z'',
      ''price'' \<mapsto> JNumber 40]"

definition ex_admin_session :: session where
  "ex_admin_session =
     \<lparr>user = Some \<lparr>u_id = ''U0'', u_name = ''Root'', u_email = ''root@example.org'',
                    u_role = ''admin''\<rparr>,
      cart = None\<rparr>"

section \<open>Facts about the array helpers\<close>

lemma findIndex_SomeD: "findIndex P xs = Some i \<Longrightarrow> i < length xs \<and> P (xs ! i)"
  by (induction xs arbitrary: i) (auto split: if_splits)


lemma findIndex_None_iff: "findIndex P xs = None \<longleftrightarrow> (\<forall>x\<in>set xs. \<not> P x)"
  by (induction xs) auto

lemma find_findIndex: "find P xs = map_option (nth xs) (findIndex P xs)"
  by (induction xs) (auto simp: option.map_comp comp_def)

lemma find_update_other:
  "i < length xs \<Longrightarrow> \<not> P (xs ! i) \<Longrightarrow> \<not> P y \<Longrightarrow> find P (xs[i := y]) = find P xs"
proof (induction xs arbitrary: i)
  case Nil
  then show ?case by simp
next
  case (Cons x xs)
  then show ?case by (cases i) auto
qed

section \<open>Checkout: a failing line stops the loop\<close>

text \<open>
  With one line per product, a line that fails against the catalog as read from disk
  fails when the loop reaches it, because the loop has changed other products only.
\<close>

lemma checkout_loop_fails_distinct:
  assumes "distinct (map productId c)" and "item \<in> set c"
    and "case find (\<lambda>p. p_id p = productId item) ps of
           None \<Rightarrow> True | Some p \<Rightarrow> p_stock p < quantity item"
  shows "\<exists>err. checkout_loop c ps its sub = Inl err"
  using assms
proof (induction c arbitrary: ps its sub)
  case Nil
  then show ?case by simp
next
  case (Cons x rest)
  show ?case
  proof (cases "findIndex (\<lambda>p. p_id p = productId x) ps")
    case None
    then show ?thesis by simp
  next
    case (Some i)
    then have i: "i < length ps" "p_id (ps ! i) = productId x"
      using findIndex_SomeD [of "\<lambda>p. p_id p = productId x" ps i] by auto
    show ?thesis
    proof (cases "p_stock (ps ! i) < quantity x")
      case True
      with Some show ?thesis by simp
    next
      case False
      have fx: "find (\<lambda>p. p_id p = productId x) ps = Some (ps ! i)"
        by (simp add: find_findIndex Some)
      from False fx Cons.prems(3) have "item \<noteq> x" by auto
      with Cons.prems(2) have mem: "item \<in> set rest" by simp
      then have "productId item \<in> set (map productId rest)" by simp
      with Cons.prems(1) have ne: "productId item \<noteq> productId x" by auto
      let ?ps' = "ps[i := (ps ! i)\<lparr>p_stock := p_stock (ps ! i) - quantity x\<rparr>]"
      have "find (\<lambda>p. p_id p = productId item) ?ps' = find (\<lambda>p. p_id p = productId item) ps"
        using i ne by (intro find_update_other) auto
      with Cons.prems(3) have
        "case find (\<lambda>p. p_id p = productId item) ?ps' of
           None \<Rightarrow> True | Some p \<Rightarrow> p_stock p < quantity item" by simp
      moreover from Cons.prems(1) have "distinct (map productId rest)" by simp
      ultimately obtain err where
        "checkout_loop rest ?ps'
           (its @ [\<lparr>oi_productId = p_id (ps ! i), oi_name = p_name (ps ! i),
                    oi_price = p_price (ps ! i), oi_quantity = quantity x,
                    oi_image = first_image (ps ! i)\<rparr>])
           (sub + p_price (ps ! i) * of_int (quantity x)) = Inl err"
        using Cons.IH mem by blast
      with Some False show ?thesis by (simp add: Let_def)
    qed
  qed
qed

text \<open>
  Without that, but with no negative quantity in the cart: while the loop runs the array
  keeps its ids in place and no stock level rises, so the failing line still fails.
\<close>

lemma find_stock_le:
  assumes "list_all2 (\<lambda>p p0. p_id p = p_id p0 \<and> p_stock p \<le> p_stock p0) ps ps0"
    and "find (\<lambda>p. p_id p = k) ps = Some p"
  shows "\<exists>p0. find (\<lambda>p. p_id p = k) ps0 = Some p0 \<and> p_stock p \<le> p_stock p0"
  using assms by (induction ps ps0 rule: list_all2_induct) (auto split: if_splits)

lemma checkout_loop_fails_nonneg:
  assumes "\<forall>line\<in>set c. 0 \<le> quantity line" and "item \<in> set c"
    and "case find (\<lambda>p. p_id p = productId item) ps0 of
           None \<Rightarrow> True | Some p \<Rightarrow> p_stock p < quantity item"
    and "list_all2 (\<lambda>p p0. p_id p = p_id p0 \<and> p_stock p \<le> p_stock p0) ps ps0"
  shows "\<exists>err. checkout_loop c ps its sub = Inl err"
  using assms
proof (induction c arbitrary: ps its sub)
  case Nil
  then show ?case by simp
next
  case (Cons x rest)
  show ?case
  proof (cases "findIndex (\<lambda>p. p_id p = productId x) ps")
    case None
    then show ?thesis by simp
  next
    case (Some i)
    then have i: "i < length ps" "p_id (ps ! i) = productId x"
      using findIndex_SomeD [of "\<lambda>p. p_id p = productId x" ps i] by auto
    show ?thesis
    proof (cases "p_stock (ps ! i) < quantity x")
      case True
      with Some show ?thesis by simp
    next
      case False
      have fx: "find (\<lambda>p. p_id p = productId x) ps = Some (ps ! i)"
        by (simp add: find_findIndex Some)
      from find_stock_le [OF Cons.prems(4) fx] obtain p0 where
        "find (\<lambda>p. p_id p = productId x) ps0 = Some p0" "p_stock (ps ! i) \<le> p_stock p0"
        by blast
      with False Cons.prems(3) have "item \<noteq> x" by auto
      with Cons.prems(2) have mem: "item \<in> set rest" by simp
      let ?ps' = "ps[i := (ps ! i)\<lparr>p_stock := p_stock (ps ! i) - quantity x\<rparr>]"
      from Cons.prems(1) have q: "0 \<le> quantity x" by simp
      have "list_all2 (\<lambda>p p0. p_id p = p_id p0 \<and> p_stock p \<le> p_stock p0) ?ps' ps0"
        using Cons.prems(4) i q
        by (auto simp: list_all2_conv_all_nth nth_list_update)
      moreover from Cons.prems(1) have "\<forall>line\<in>set rest. 0 \<le> quantity line" by simp
      ultimately obtain err where
        "checkout_loop rest ?ps'
           (its @ [\<lparr>oi_productId = p_id (ps ! i), oi_name = p_name (ps ! i),
                    oi_price = p_price (ps ! i), oi_quantity = quantity x,
                    oi_image = first_image (ps ! i)\<rparr>])
           (sub + p_price (ps ! i) * of_int (quantity x)) = Inl err"
        using Cons.IH mem Cons.prems(3) by blast
      with Some False show ?thesis by (simp add: Let_def)
    qed
  qed
qed

text \<open>When the loop stops with an error, the handler answers 400 and has done nothing.\<close>

lemma create_order_loop_fails:
  assumes "user sess = Some u" and "cart sess = Some c"
    and "checkout_loop c (readData (products_json st)) [] 0 = Inl err"
  shows "create_order e body st sess = reject 400 (error_title err) st sess
       \<or> create_order e body st sess = reject 400 ''Invalid address'' st sess
       \<or> create_order e body st sess = reject 400 ''Empty cart'' st sess"
  using assms
  by (auto simp: create_order_def requireAuth_def Let_def split: list.splits option.splits)

text \<open>
  Claim C1. Take a checkout request of a logged-in user whose cart has a line that fails
  validation against the products file: its \<open>productId\<close> is the id of no product, or the
  product found has less stock than the line asks for. Then the handler answers 400,
  calls \<open>writeData\<close> on no file, and leaves both files (so every product's persisted
  stock and the orders) and the session as they were; this holds wherever the failing
  line stands in the cart, also after lines that the loop has already taken from the
  in-memory stock. The cart is one that has one line per product, as every route that
  writes the session cart keeps it (see the section on the cart routes below), or one
  with no negative quantity.
\<close>

theorem checkout_all_or_nothing:
  assumes "user sess \<noteq> None" and "cart sess = Some c"
    and "distinct (map productId c) \<or> (\<forall>line\<in>set c. 0 \<le> quantity line)"
    and "item \<in> set c"
    and "case find (\<lambda>p. p_id p = productId item) (readData (products_json st)) of
           None \<Rightarrow> True | Some p \<Rightarrow> p_stock p < quantity item"
  shows "status_code (resp (create_order e body st sess)) = 400 \<and>
         writes (create_order e body st sess) = [] \<and>
         store_out (create_order e body st sess) = st \<and>
         session_out (create_order e body st sess) = sess"
proof -
  from assms(1) obtain u where u: "user sess = Some u" by auto
  let ?ps = "readData (products_json st)"
  have "list_all2 (\<lambda>p p0. p_id p = p_id p0 \<and> p_stock p \<le> p_stock p0) ?ps ?ps"
    by (simp add: list_all2_refl)
  with assms(3-5) obtain err where "checkout_loop c ?ps [] 0 = Inl err"
    using checkout_loop_fails_distinct [of c item ?ps "[]" 0]
      checkout_loop_fails_nonneg [of c item ?ps ?ps "[]" 0] by blast
  from create_order_loop_fails [OF u assms(2) this, of e body]
  show ?thesis by (auto simp: reject_def)
qed

theorem checkout_all_or_nothing_witness:
  "status_code (resp (create_order ex_env ex_body ex_store ex_session_dangling)) = 400 \<and>
   writes (create_order ex_env ex_body ex_store ex_session_dangling) = [] \<and>
   store_out (create_order ex_env ex_body ex_store ex_session_dangling) = ex_store \<and>
   session_out (create_order ex_env ex_body ex_store ex_session_dangling) = ex_session_dangling"
  using checkout_all_or_nothing
    [of ex_session_dangling
        "[\<lparr>productId = ''P1'', quantity = 2, addedAt = 1500\<rparr>,
          \<lparr>productId = ''P9'', quantity = 1, addedAt = 1600\<rparr>]"
        "\<lparr>productId = ''P9'', quantity = 1, addedAt = 1600\<rparr>" ex_store ex_env ex_body]
  by (simp add: ex_session_dangling_def ex_store_def ex_P1_def readData_def)

section \<open>Checkout: the two ways the handler ends\<close>

text \<open>A request that passes every check is answered 201, after both calls of \<open>writeData\<close>.\<close>

lemma create_order_placed:
  assumes "user sess = Some u" and "cart sess = Some c" and "c \<noteq> []"
    and "shippingAddress body = Some a" and "address_complete a"
    and "checkout_loop c (readData (products_json st)) [] 0 = Inr (ps', its, s)"
  shows "create_order e body st sess =
           \<lparr>resp = Success 201
                    \<lparr>ack_id = generated_id e, ack_orderNumber = ''ORD-'' @ date_now_base36 e,
                     ack_total = round2 (total_of s), ack_status = ''pending''\<rparr>,
            store_out =
              \<lparr>products_json = fst (writeData (products_write_ok e) (products_json st) ps'),
               orders_json =
                 fst (writeData (orders_write_ok e) (orders_json st)
                        (readData (orders_json st) @ [make_order e u a (paymentMethod body) its s]))\<rparr>,
            session_out = sess\<lparr>cart := Some []\<rparr>,
            writes = [PRODUCTS_FILE, ORDERS_FILE]\<rparr>"
  using assms
  by (cases c) (simp_all add: create_order_def requireAuth_def Let_def make_order_def)

text \<open>
  Every other request is rejected, in the same way whatever the writes would have done.
\<close>

lemma create_order_cases:
  obtains (rejected) code msg where
      "\<forall>e. create_order e body st sess = reject code msg st sess" "code \<noteq> 201"
  | (placed) u c a ps' its s where
      "user sess = Some u" "cart sess = Some c" "c \<noteq> []"
      "shippingAddress body = Some a" "address_complete a"
      "checkout_loop c (readData (products_json st)) [] 0 = Inr (ps', its, s)"
proof (cases "user sess")
  case None
  then have "\<forall>e. create_order e body st sess = reject 401 ''Authentication required'' st sess"
    by (simp add: create_order_def requireAuth_def)
  then show ?thesis by (rule rejected) simp
next
  case u: (Some u)
  show ?thesis
  proof (cases "cart sess")
    case None
    with u have "\<forall>e. create_order e body st sess = reject 400 ''Empty cart'' st sess"
      by (simp add: create_order_def requireAuth_def)
    then show ?thesis by (rule rejected) simp
  next
    case c: (Some c)
    show ?thesis
    proof (cases c)
      case Nil
      with u c have "\<forall>e. create_order e body st sess = reject 400 ''Empty cart'' st sess"
        by (simp add: create_order_def requireAuth_def)
      then show ?thesis by (rule rejected) simp
    next
      case (Cons x xs)
      show ?thesis
      proof (cases "shippingAddress body")
        case None
        with u c Cons have "\<forall>e. create_order e body st sess = reject 400 ''Invalid address'' st sess"
          by (simp add: create_order_def requireAuth_def)
        then show ?thesis by (rule rejected) simp
      next
        case a: (Some a)
        show ?thesis
        proof (cases "address_complete a")
          case False
          with u c Cons a
          have "\<forall>e. create_order e body st sess = reject 400 ''Invalid address'' st sess"
            by (simp add: create_order_def requireAuth_def)
          then show ?thesis by (rule rejected) simp
        next
          case True
          show ?thesis
          proof (cases "checkout_loop c (readData (products_json st)) [] 0")
            case (Inl err)
            with u c Cons a True
            have "\<forall>e. create_order e body st sess = reject 400 (error_title err) st sess"
              by (simp add: create_order_def requireAuth_def Let_def)
            then show ?thesis by (rule rejected) simp
          next
            case (Inr res)
            obtain ps' its s where "res = (ps', its, s)" by (cases res) auto
            with Inr u c Cons a True show ?thesis using placed by simp
          qed
        qed
      qed
    qed
  qed
qed

section \<open>Checkout: the write of the order and the cart\<close>




section \<open>Checkout: totals\<close>








text \<open>
  The subtotal of the loop is the sum, over the lines of the cart, of the price of the
  product the line names times the quantity of the line (the loop changes stock levels,
  never a price).
\<close>

lemma find_price_after_stock_update:
  "i < length ps \<Longrightarrow>
   map_option p_price (find (\<lambda>p. p_id p = k) (ps[i := (ps ! i)\<lparr>p_stock := v\<rparr>])) =
   map_option p_price (find (\<lambda>p. p_id p = k) ps)"
proof (induction ps arbitrary: i)
  case Nil
  then show ?case by simp
next
  case (Cons x xs)
  then show ?case by (cases i) auto
qed

lemma line_price_after_stock_update:
  assumes "i < length ps"
  shows "(case find (\<lambda>p. p_id p = k) (ps[i := (ps ! i)\<lparr>p_stock := v\<rparr>]) of
            None \<Rightarrow> 0 | Some p \<Rightarrow> p_price p * x) =
         (case find (\<lambda>p. p_id p = k) ps of None \<Rightarrow> 0 | Some p \<Rightarrow> p_price p * x)"
  using find_price_after_stock_update [OF assms, of k v]
  by (auto split: option.splits)

lemma checkout_loop_subtotal:
  assumes "checkout_loop c ps its sub = Inr (ps', its', s)"
  shows "s = sub + sum_list (map (\<lambda>line.
                 case find (\<lambda>p. p_id p = productId line) ps of
                   None \<Rightarrow> 0 | Some p \<Rightarrow> p_price p * of_int (quantity line)) c)"
  using assms
proof (induction c arbitrary: ps its sub)
  case Nil
  then show ?case by simp
next
  case (Cons x rest)
  from Cons.prems obtain i where i: "findIndex (\<lambda>p. p_id p = productId x) ps = Some i"
    by (auto split: option.splits)
  then have len: "i < length ps" using findIndex_SomeD by fastforce
  let ?p = "ps ! i"
  let ?ps' = "ps[i := ?p\<lparr>p_stock := p_stock ?p - quantity x\<rparr>]"
  from Cons.prems i have
    run: "checkout_loop rest ?ps'
            (its @ [\<lparr>oi_productId = p_id ?p, oi_name = p_name ?p, oi_price = p_price ?p,
                     oi_quantity = quantity x, oi_image = first_image ?p\<rparr>])
            (sub + p_price ?p * of_int (quantity x)) = Inr (ps', its', s)"
    by (simp add: Let_def split: if_splits)
  have here: "find (\<lambda>p. p_id p = productId x) ps = Some ?p"
    by (simp add: find_findIndex i)
  from Cons.IH [OF run] show ?case
    by (simp add: here line_price_after_stock_update [OF len] add.assoc)
qed




text \<open>
  Claim C4, as amended. In the scenario (cart: two of \<open>P1\<close>; \<open>P1\<close> costs 50 and has 5 in
  stock; both writes go through) the order has subtotal 100, shipping 9.99, tax 8 and total
  117.99, the stock of \<open>P1\<close> becomes 3, the answer is 201 and the cart is emptied. A
  subtotal of exactly 100 is not strictly greater than 100 and pays the flat rate.
\<close>

theorem checkout_scenario:
  assumes "p_id p = ''P1''" and "p_price p = 50" and "p_stock p = 5"
    and "products_json st = Some [p]"
    and "user sess = Some u"
    and "cart sess = Some [\<lparr>productId = ''P1'', quantity = 2, addedAt = t\<rparr>]"
    and "shippingAddress body = Some a" and "address_complete a"
    and "products_write_ok e" and "orders_write_ok e"
  shows "\<exists>ord. store_out (create_order e body st sess) =
                 \<lparr>products_json = Some [p\<lparr>p_stock := 3\<rparr>],
                  orders_json = Some (readData (orders_json st) @ [ord])\<rparr> \<and>
               o_subtotal ord = 100 \<and> o_shipping ord = 999 / 100 \<and> o_tax ord = 8 \<and>
               o_total ord = 11799 / 100 \<and>
               status_code (resp (create_order e body st sess)) = 201 \<and>
               cart (session_out (create_order e body st sess)) = Some []"
proof -
  let ?its = "[\<lparr>oi_productId = p_id p, oi_name = p_name p, oi_price = p_price p,
                oi_quantity = 2, oi_image = first_image p\<rparr>]"
  have loop: "checkout_loop [\<lparr>productId = ''P1'', quantity = 2, addedAt = t\<rparr>]
                (readData (products_json st)) [] 0 = Inr ([p\<lparr>p_stock := 3\<rparr>], ?its, 100)"
    using assms(1-4) by (simp add: readData_def)
  have r: "round2 100 = 100" "round2 (999 / 100) = 999 / 100" "round2 8 = 8"
    "round2 (11799 / 100) = 11799 / 100"
    by code_simp+
  have ne: "[\<lparr>productId = ''P1'', quantity = 2, addedAt = t\<rparr>] \<noteq> []" by simp
  show ?thesis
    using assms(9,10)
    by (simp add: create_order_placed [OF assms(5,6) ne assms(7,8) loop] writeData_def
        make_order_def shipping_of_def tax_of_def total_of_def r)
qed

theorem checkout_scenario_witness:
  "\<exists>ord. store_out (create_order ex_env ex_body ex_store ex_session) =
          \<lparr>products_json = Some [ex_P1\<lparr>p_stock := 3\<rparr>], orders_json = Some [ord]\<rparr> \<and>
        o_subtotal ord = 100 \<and> o_shipping ord = 999 / 100 \<and> o_tax ord = 8 \<and>
        o_total ord = 11799 / 100"
proof -
  have "\<exists>ord. store_out (create_order ex_env ex_body ex_store ex_session) =
                \<lparr>products_json = Some [ex_P1\<lparr>p_stock := 3\<rparr>],
                 orders_json = Some (readData (orders_json ex_store) @ [ord])\<rparr> \<and>
              o_subtotal ord = 100 \<and> o_shipping ord = 999 / 100 \<and> o_tax ord = 8 \<and>
              o_total ord = 11799 / 100 \<and>
              status_code (resp (create_order ex_env ex_body ex_store ex_session)) = 201 \<and>
              cart (session_out (create_order ex_env ex_body ex_store ex_session)) = Some []"
    by (rule checkout_scenario [where u = ex_user and t = 1500 and a = ex_address])
      (simp_all add: ex_P1_def ex_store_def ex_session_def ex_body_def ex_address_def
        address_complete_def ex_env_def)
  then show ?thesis by (auto simp: ex_store_def readData_def)
qed

text \<open>
  Claim C4 as stated fails on its shipping and total: the order of the scenario has
  shipping 9.99, not 0, and total 117.99, not 108.
\<close>

theorem checkout_scenario_counterexample:
  "map o_shipping (readData (orders_json (store_out
      (create_order ex_env ex_body ex_store ex_session)))) = [999 / 100] \<and>
   map o_total (readData (orders_json (store_out
      (create_order ex_env ex_body ex_store ex_session)))) = [11799 / 100] \<and>
   (999 / 100 :: rat) \<noteq> 0 \<and> (11799 / 100 :: rat) \<noteq> 108"
  by code_simp




section \<open>The cart routes keep one line per product\<close>

text \<open>
  A session cart is written by the cart routes and by checkout only. If it has at most
  one line per product before a request, it has so afterwards.
\<close>

lemma map_productId_set_quantity:
  "i < length c \<Longrightarrow> map productId (c[i := (c ! i)\<lparr>quantity := q\<rparr>]) = map productId c"
  by (simp add: map_update list_update_same_conv)

lemma distinct_map_splice1:
  assumes "distinct (map f xs)"
  shows "distinct (map f (splice1 i xs))"
proof -
  have "distinct (take i (map f xs) @ drop (Suc i) (map f xs))"
    using assms set_take_disj_set_drop_if_distinct [of "map f xs" i "Suc i"]
    by (simp add: distinct_take distinct_drop)
  then show ?thesis by (simp add: splice1_def take_map drop_map)
qed

lemma distinct_set_quantity:
  assumes "distinct (map productId c)" and "findIndex P c = Some i"
  shows "distinct (map productId (c[i := (c ! i)\<lparr>quantity := q\<rparr>]))"
  using findIndex_SomeD [OF assms(2)] assms(1) by (simp only: map_productId_set_quantity)

lemma add_to_cart_lines_distinct:
  assumes "\<forall>c. cart sess = Some c \<longrightarrow> distinct (map productId c)"
    and "cart (session_out (add_to_cart now body st sess)) = Some c'"
  shows "distinct (map productId c')"
proof -
  define c where "c = (case cart sess of None \<Rightarrow> [] | Some c \<Rightarrow> c)"
  have dc: "distinct (map productId c)"
    using assms(1) by (auto simp: c_def split: option.splits)
  have new: "distinct (map productId (c @ [\<lparr>productId = pid, quantity = q, addedAt = now\<rparr>]))"
    if "findIndex (\<lambda>item. productId item = pid) c = None" for pid q
    using that dc by (auto simp: findIndex_None_iff)
  note old = distinct_set_quantity [OF dc]
  show ?thesis
    using assms new old unfolding c_def
    by (auto simp: add_to_cart_def reject_def cart_ok_def Let_def simp del: distinct_map
        split: if_splits option.splits)
qed

lemma update_cart_lines_distinct:
  assumes "\<forall>c. cart sess = Some c \<longrightarrow> distinct (map productId c)"
    and "cart (session_out (update_cart body st sess)) = Some c'"
  shows "distinct (map productId c')"
  using assms
  by (auto simp: update_cart_def reject_def cart_ok_def Let_def distinct_map_splice1
      distinct_set_quantity simp del: distinct_map
      split: if_splits option.splits)

lemma remove_from_cart_lines_distinct:
  assumes "\<forall>c. cart sess = Some c \<longrightarrow> distinct (map productId c)"
    and "cart (session_out (remove_from_cart pid st sess)) = Some c'"
  shows "distinct (map productId c')"
  using assms
  by (auto simp: remove_from_cart_def reject_def cart_ok_def distinct_map_splice1
      simp del: distinct_map split: option.splits)

lemma clear_cart_lines_distinct:
  "cart (session_out (clear_cart st sess)) = Some c' \<Longrightarrow> distinct (map productId c')"
  by (auto simp: clear_cart_def)

lemma create_order_lines_distinct:
  assumes "\<forall>c. cart sess = Some c \<longrightarrow> distinct (map productId c)"
    and "cart (session_out (create_order e body st sess)) = Some c'"
  shows "distinct (map productId c')"
proof (cases rule: create_order_cases [of body st sess])
  case (rejected code msg)
  with assms show ?thesis by (simp add: reject_def)
next
  case (placed u c a ps' its s)
  from assms(2) show ?thesis by (simp add: create_order_placed [OF placed])
qed

section \<open>Cart update\<close>






section \<open>Reading the cart\<close>

lemma foldl_add_sum_list:
  "foldl (\<lambda>sum item. sum + g item) a xs = a + sum_list (map g xs)"
  for a :: "'a::comm_monoid_add"
  by (induction xs arbitrary: a) (simp_all add: add.assoc)

lemma enrich_None_iff:
  "enrich products item = None \<longleftrightarrow> find (\<lambda>p. p_id p = productId item) products = None"
  by (simp add: enrich_def split: option.splits)

lemma map_filter_enrich:
  "List.map_filter (enrich products) c =
     map (\<lambda>item. the (enrich products item))
       (filter (\<lambda>item. find (\<lambda>p. p_id p = productId item) products \<noteq> None) c)"
  by (simp add: List.map_filter_def enrich_None_iff comp_def)

lemma the_enrich:
  assumes "find (\<lambda>p. p_id p = productId item) products = Some p"
  shows "cl_productId (the (enrich products item)) = productId item"
    and "cl_quantity (the (enrich products item)) = quantity item"
    and "cp_price (cl_product (the (enrich products item))) = p_price p"
  using assms by (simp_all add: enrich_def)

text \<open>
  Claim C10. \<open>GET /api/cart\<close> leaves the session (and so the session cart, dangling
  lines included) and the files as they are and writes nothing. The items it returns are
  the lines of the cart whose \<open>productId\<close> is the id of a product of the catalog, in cart
  order, with their quantities; lines that resolve to no product are left out, and the
  response is the one the same cart without them would get. \<open>itemCount\<close> is the sum of
  the quantities of the resolved lines and \<open>subtotal\<close> the rounded sum of their price
  times quantity; shipping, tax and total are computed from the same items.
\<close>

theorem get_cart_skips_dangling:
  fixes st :: store and sess :: session
  defines "c \<equiv> (case cart sess of None \<Rightarrow> [] | Some c \<Rightarrow> c)"
  defines "live \<equiv>
    filter (\<lambda>item. find (\<lambda>p. p_id p = productId item) (readData (products_json st)) \<noteq> None) c"
  shows "session_out (get_cart st sess) = sess \<and>
         store_out (get_cart st sess) = st \<and>
         writes (get_cart st sess) = [] \<and>
         resp (get_cart st sess) = resp (get_cart st (sess\<lparr>cart := Some live\<rparr>)) \<and>
         (\<exists>view. resp (get_cart st sess) = Success 200 view \<and>
            map cl_productId (cv_items view) = map productId live \<and>
            map cl_quantity (cv_items view) = map quantity live \<and>
            map cl_addedAt (cv_items view) = map addedAt live \<and>
            cv_summary view = cart_summary_of (cv_items view) \<and>
            itemCount (cv_summary view) = sum_list (map quantity live) \<and>
            s_subtotal (cv_summary view) =
              round2 (sum_list (map (\<lambda>item.
                 case find (\<lambda>p. p_id p = productId item) (readData (products_json st)) of
                   None \<Rightarrow> 0 | Some p \<Rightarrow> p_price p * of_int (quantity item)) live)))"
proof -
  let ?ps = "readData (products_json st)"
  let ?ok = "\<lambda>item. find (\<lambda>p. p_id p = productId item) ?ps \<noteq> None"
  let ?items = "List.map_filter (enrich ?ps) c"
  have items: "?items = map (\<lambda>item. the (enrich ?ps item)) live"
    by (simp add: map_filter_enrich live_def)
  have again: "List.map_filter (enrich ?ps) live = ?items"
    by (simp add: map_filter_enrich live_def)
  have r: "resp (get_cart st sess) = Success 200 \<lparr>cv_items = ?items, cv_summary = cart_summary_of ?items\<rparr>"
    by (simp add: get_cart_def c_def Let_def)
  have ok: "\<forall>item\<in>set live. ?ok item" by (simp add: live_def)
  have ids: "map cl_productId ?items = map productId live"
    "map cl_quantity ?items = map quantity live"
    "map cl_addedAt ?items = map addedAt live"
    using ok unfolding items by (auto simp: enrich_def split: option.splits)
  have price: "map (\<lambda>l. cp_price (cl_product l) * of_int (cl_quantity l)) ?items =
               map (\<lambda>item. case find (\<lambda>p. p_id p = productId item) ?ps of
                             None \<Rightarrow> 0 | Some p \<Rightarrow> p_price p * of_int (quantity item)) live"
    using ok unfolding items by (auto simp: enrich_def split: option.splits)
  have count: "itemCount (cart_summary_of ?items) = sum_list (map quantity live)"
    using ids(2) by (simp add: cart_summary_of_def Let_def foldl_add_sum_list
        [where g = cl_quantity])
  have sub: "s_subtotal (cart_summary_of ?items) =
               round2 (sum_list (map (\<lambda>item.
                 case find (\<lambda>p. p_id p = productId item) ?ps of
                   None \<Rightarrow> 0 | Some p \<Rightarrow> p_price p * of_int (quantity item)) live))"
    using price
    by (simp add: cart_summary_of_def Let_def
        foldl_add_sum_list [where g = "\<lambda>l. cp_price (cl_product l) * of_int (cl_quantity l)"])
  have same: "resp (get_cart st (sess\<lparr>cart := Some live\<rparr>)) = resp (get_cart st sess)"
    unfolding r by (simp add: get_cart_def again Let_def)
  show ?thesis
    using ids count sub same by (simp add: r) (simp add: get_cart_def Let_def)
qed

theorem get_cart_skips_dangling_witness:
  "session_out (get_cart ex_store ex_session_dangling) = ex_session_dangling \<and>
   (\<exists>view. resp (get_cart ex_store ex_session_dangling) = Success 200 view \<and>
      map cl_productId (cv_items view) = [''P1''] \<and>
      itemCount (cv_summary view) = 2 \<and>
      s_subtotal (cv_summary view) = 100)"
proof -
  let ?live =
    "filter (\<lambda>item. find (\<lambda>p. p_id p = productId item) (readData (products_json ex_store))
                      \<noteq> None)
       (case cart ex_session_dangling of None \<Rightarrow> [] | Some c \<Rightarrow> c)"
  let ?price =
    "\<lambda>item. case find (\<lambda>p. p_id p = productId item) (readData (products_json ex_store)) of
              None \<Rightarrow> 0 | Some p \<Rightarrow> p_price p * of_int (quantity item)"
  have live: "?live = [\<lparr>productId = ''P1'', quantity = 2, addedAt = 1500\<rparr>]"
    by (simp add: ex_session_dangling_def ex_store_def ex_P1_def readData_def)
  have price: "sum_list (map ?price [\<lparr>productId = ''P1'', quantity = 2, addedAt = 1500\<rparr>]) = 100"
    by (simp add: ex_store_def ex_P1_def readData_def)
  have r100: "round2 100 = 100" by code_simp
  from get_cart_skips_dangling [of ex_store ex_session_dangling] obtain view where
    same: "session_out (get_cart ex_store ex_session_dangling) = ex_session_dangling"
    and view: "resp (get_cart ex_store ex_session_dangling) = Success 200 view"
    and ids: "map cl_productId (cv_items view) = map productId ?live"
    and count: "itemCount (cv_summary view) = sum_list (map quantity ?live)"
    and sub: "s_subtotal (cv_summary view) = round2 (sum_list (map ?price ?live))"
    by blast
  from ids have "map cl_productId (cv_items view) = [''P1'']" unfolding live by simp
  moreover from count have "itemCount (cv_summary view) = 2" unfolding live by simp
  moreover from sub have "s_subtotal (cv_summary view) = 100"
    unfolding live price by (simp only: r100)
  ultimately have
    "resp (get_cart ex_store ex_session_dangling) = Success 200 view \<and>
     map cl_productId (cv_items view) = [''P1''] \<and>
     itemCount (cv_summary view) = 2 \<and>
     s_subtotal (cv_summary view) = 100"
    using view by simp
  then have
    "\<exists>view. resp (get_cart ex_store ex_session_dangling) = Success 200 view \<and>
       map cl_productId (cv_items view) = [''P1''] \<and>
       itemCount (cv_summary view) = 2 \<and>
       s_subtotal (cv_summary view) = 100"
    by (rule exI)
  with same show ?thesis by (rule conjI)
qed

section \<open>Sorting\<close>

text \<open>
  When the comparator compares a key, \<open>js_sort\<close> is the library's stable insertion sort
  on that key; and it always returns the elements it was given.
\<close>

lemma js_insert_insort_key:
  assumes "\<And>a b. cmp a b \<le> 0 \<longleftrightarrow> key a \<le> key b"
  shows "js_insert cmp x ys = insort_key key x ys"
  by (induction ys) (simp_all add: assms)

lemma js_sort_sort_key:
  assumes "\<And>a b. cmp a b \<le> 0 \<longleftrightarrow> key a \<le> key b"
  shows "js_sort cmp xs = sort_key key xs"
proof -
  have "js_insert cmp = insort_key key"
    using js_insert_insort_key [of cmp key, OF assms] by (intro ext)
  then show ?thesis by (simp add: js_sort_def sort_key_def)
qed

lemma mset_js_insert: "mset (js_insert cmp x ys) = add_mset x (mset ys)"
  by (induction ys) simp_all

lemma mset_js_sort: "mset (js_sort cmp xs) = mset xs"
  unfolding js_sort_def by (induction xs) (simp_all add: mset_js_insert)

lemma length_js_sort: "length (js_sort cmp xs) = length xs"
  using mset_js_sort [of cmp xs] by (metis size_mset)

section \<open>Order listing\<close>

lemma newest_first_sort:
  "js_sort (\<lambda>a b. of_int (o_createdAt b) - of_int (o_createdAt a)) xs =
     sort_key (\<lambda>ord. - o_createdAt ord) xs"
  by (rule js_sort_sort_key) simp

lemma newest_first_sorted:
  "sorted_wrt (\<lambda>a b. o_createdAt a \<ge> o_createdAt b)
     (js_sort (\<lambda>a b. of_int (o_createdAt b) - of_int (o_createdAt a)) xs)"
proof -
  have "sorted (map (\<lambda>ord. - o_createdAt ord) (sort_key (\<lambda>ord. - o_createdAt ord) xs))"
    by (rule sorted_sort_key)
  then show ?thesis by (simp add: newest_first_sort sorted_map)
qed

lemma sorted_wrt_filter_keep: "sorted_wrt R xs \<Longrightarrow> sorted_wrt R (filter P xs)"
  by (induction xs) auto

text \<open>
  Claim C7. For every orders file and every logged-in requester, \<open>GET /api/orders\<close>
  answers 200 with a list \<open>res\<close> such that: if the requester is not an admin, no order of
  \<open>res\<close> has a \<open>userId\<close> other than the requester's id, and \<open>res\<close> holds exactly the
  requester's orders that pass the status filter; if the requester is an admin, \<open>res\<close>
  holds every order that passes the status filter, whoever owns it; \<open>res\<close> is sorted
  newest-created-first; and when a (non-empty) \<open>status\<close> is supplied every order of \<open>res\<close>
  has that status. With no status, or an empty one, the filter passes every order.
  Nothing is written.
\<close>

theorem get_orders_visibility:
  assumes "user sess = Some u"
  shows "\<exists>res. resp (get_orders status st sess) = Success 200 res \<and>
           (u_role u \<noteq> ''admin'' \<longrightarrow> (\<forall>ord\<in>set res. o_userId ord = u_id u)) \<and>
           (u_role u \<noteq> ''admin'' \<longrightarrow>
              mset res = {#ord \<in># mset (readData (orders_json st)).
                           o_userId ord = u_id u \<and>
                           (case status of None \<Rightarrow> True | Some s \<Rightarrow> s = [] \<or> o_status ord = s)#}) \<and>
           (u_role u = ''admin'' \<longrightarrow>
              mset res = {#ord \<in># mset (readData (orders_json st)).
                           (case status of None \<Rightarrow> True | Some s \<Rightarrow> s = [] \<or> o_status ord = s)#}) \<and>
           sorted_wrt (\<lambda>a b. o_createdAt a \<ge> o_createdAt b) res \<and>
           (\<forall>s. status = Some s \<and> s \<noteq> [] \<longrightarrow> (\<forall>ord\<in>set res. o_status ord = s)) \<and>
           store_out (get_orders status st sess) = st \<and>
           session_out (get_orders status st sess) = sess \<and>
           writes (get_orders status st sess) = []"
proof -
  let ?cmp = "\<lambda>a b. rat_of_int (o_createdAt b) - rat_of_int (o_createdAt a)"
  define mine where
    "mine = (if u_role u \<noteq> ''admin''
             then filter (\<lambda>ord. o_userId ord = u_id u) (readData (orders_json st))
             else readData (orders_json st))"
  define res where
    "res = (case status of None \<Rightarrow> js_sort ?cmp mine
            | Some s \<Rightarrow> if s \<noteq> [] then filter (\<lambda>ord. o_status ord = s) (js_sort ?cmp mine)
                        else js_sort ?cmp mine)"
  have out: "get_orders status st sess =
               \<lparr>resp = Success 200 res, store_out = st, session_out = sess, writes = []\<rparr>"
    using assms unfolding res_def mine_def
    by (cases "u_role u = ''admin''") (simp_all add: get_orders_def requireAuth_def Let_def)
  have sorted: "sorted_wrt (\<lambda>a b. o_createdAt a \<ge> o_createdAt b) res"
    unfolding res_def
    by (auto simp: newest_first_sorted sorted_wrt_filter_keep split: option.splits)
  have m: "mset res = {#ord \<in># mset mine.
                         (case status of None \<Rightarrow> True | Some s \<Rightarrow> s = [] \<or> o_status ord = s)#}"
    unfolding res_def
    by (cases status) (simp_all add: mset_js_sort)
  have own: "\<forall>ord\<in>set res. o_userId ord = u_id u" if "u_role u \<noteq> ''admin''"
  proof -
    have "set res = set_mset (mset res)" by simp
    also have "\<dots> \<subseteq> set mine" unfolding m by auto
    finally show ?thesis using that by (auto simp: mine_def)
  qed
  have st: "\<forall>s. status = Some s \<and> s \<noteq> [] \<longrightarrow> (\<forall>ord\<in>set res. o_status ord = s)"
    by (auto simp: res_def)
  have m1: "mset res = {#ord \<in># mset (readData (orders_json st)).
                           o_userId ord = u_id u \<and>
                           (case status of None \<Rightarrow> True | Some s \<Rightarrow> s = [] \<or> o_status ord = s)#}"
    if "u_role u \<noteq> ''admin''"
    using that unfolding m mine_def by (simp add: filter_filter_mset conj_commute)
  have m2: "mset res = {#ord \<in># mset (readData (orders_json st)).
                           (case status of None \<Rightarrow> True | Some s \<Rightarrow> s = [] \<or> o_status ord = s)#}"
    if "u_role u = ''admin''"
    using that unfolding m mine_def by simp
  have "resp (get_orders status st sess) = Success 200 res \<and>
        (u_role u \<noteq> ''admin'' \<longrightarrow> (\<forall>ord\<in>set res. o_userId ord = u_id u)) \<and>
        (u_role u \<noteq> ''admin'' \<longrightarrow>
           mset res = {#ord \<in># mset (readData (orders_json st)).
                        o_userId ord = u_id u \<and>
                        (case status of None \<Rightarrow> True | Some s \<Rightarrow> s = [] \<or> o_status ord = s)#}) \<and>
        (u_role u = ''admin'' \<longrightarrow>
           mset res = {#ord \<in># mset (readData (orders_json st)).
                        (case status of None \<Rightarrow> True | Some s \<Rightarrow> s = [] \<or> o_status ord = s)#}) \<and>
        sorted_wrt (\<lambda>a b. o_createdAt a \<ge> o_createdAt b) res \<and>
        (\<forall>s. status = Some s \<and> s \<noteq> [] \<longrightarrow> (\<forall>ord\<in>set res. o_status ord = s)) \<and>
        store_out (get_orders status st sess) = st \<and>
        session_out (get_orders status st sess) = sess \<and>
        writes (get_orders status st sess) = []"
    using sorted own st m1 m2 by (simp add: out)
  then show ?thesis by (rule exI)
qed

theorem get_orders_visibility_witness:
  "resp (get_orders (Some ''shipped'') ex_store_orders ex_session) = Success 200 [ex_order3]"
proof -
  have u: "user ex_session = Some ex_user" by (simp add: ex_session_def)
  have role: "u_role ex_user \<noteq> ''admin''" by (simp add: ex_user_def)
  from get_orders_visibility [OF u, of "Some ''shipped''" ex_store_orders] role
  obtain res where
    r: "resp (get_orders (Some ''shipped'') ex_store_orders ex_session) = Success 200 res"
    and m: "mset res = {#ord \<in># mset (readData (orders_json ex_store_orders)).
                          o_userId ord = u_id ex_user \<and>
                          (case Some ''shipped'' of None \<Rightarrow> True
                           | Some s \<Rightarrow> s = [] \<or> o_status ord = s)#}"
    by blast
  from m have "mset res = {#ex_order3#}"
    by (simp add: ex_store_orders_def readData_def ex_order1_def ex_order2_def ex_order3_def
        ex_user_def)
  then have "res = [ex_order3]" by simp
  with r show ?thesis by simp
qed

section \<open>Catalog pagination\<close>

lemma length_sort_products: "length (sort_products lc key ps) = length ps"
  by (simp add: sort_products_def length_js_sort)

lemma slice_from_end: "int (length xs) \<le> start \<Longrightarrow> slice xs start stop = []"
  by (simp add: slice_def slice_index_def Let_def)

lemma slice_page:
  assumes "0 \<le> start" and "0 \<le> n"
  shows "slice xs start (start + n) = take (nat n) (drop (nat start) xs)"
proof (cases "int (length xs) \<le> start")
  case True
  then show ?thesis using assms by (simp add: slice_from_end)
next
  case False
  with assms have lo: "slice_index (int (length xs)) start = nat start"
    by (simp add: slice_index_def)
  from assms have hi: "slice_index (int (length xs)) (start + n) =
                         min (nat start + nat n) (length xs)"
    by (auto simp: slice_index_def min_def)
  have "take (min (nat start + nat n) (length xs) - nat start) (drop (nat start) xs) =
        take (nat n) (drop (nat start) xs)"
    using False assms by (cases "nat start + nat n \<le> length xs") (simp_all add: min_def)
  then show ?thesis by (simp add: slice_def Let_def lo hi)
qed

lemma beyond_last_page:
  assumes "0 < pageSize" and "\<lceil>(of_int n :: rat) / of_int pageSize\<rceil> < pageNum"
  shows "n \<le> (pageNum - 1) * pageSize"
proof -
  have "(of_int n :: rat) / of_int pageSize \<le> of_int \<lceil>(of_int n :: rat) / of_int pageSize\<rceil>"
    by (rule le_of_int_ceiling)
  also have "\<dots> \<le> of_int (pageNum - 1)" using assms(2) by simp
  finally have "(of_int n :: rat) \<le> of_int (pageNum - 1) * of_int pageSize"
    using assms(1) by (simp add: pos_divide_le_eq)
  then have "(of_int n :: rat) \<le> of_int ((pageNum - 1) * pageSize)" by simp
  then show ?thesis by (simp only: of_int_le_iff)
qed

lemma filter_products_page: "filter_products (q\<lparr>q_page := p\<rparr>) ps = filter_products q ps"
  unfolding filter_products_def by simp

text \<open>
  Claim C6, as amended. For every products file, filter combination, 1-indexed page number
  and positive page size (\<open>limit\<close>, or 12 without one), the catalog query answers 200
  with \<open>total\<close> the number of products that pass the filters and
  \<open>totalPages = ceil(total / pageSize)\<close>; a page number beyond \<open>totalPages\<close> gets an empty
  product list; a page number from 1 on gets the \<open>pageSize\<close> products that follow the
  first \<open>(page - 1) * pageSize\<close> of the filtered and sorted list; and \<open>total\<close> and
  \<open>totalPages\<close> are the same whatever page is asked for. Nothing is written.
\<close>

theorem catalog_pagination:
  fixes st :: store and q :: product_query
  defines "pageSize \<equiv> (case q_limit q of None \<Rightarrow> 12 | Some l \<Rightarrow> l)"
    and "pageNum \<equiv> (case q_page q of None \<Rightarrow> 1 | Some n \<Rightarrow> n)"
    and "filtered \<equiv> filter_products q (readData (products_json st))"
  assumes "0 < pageSize"
  shows "\<exists>pg. resp (get_products lc q st sess) = Success 200 pg \<and>
           pg_total (pp_pagination pg) = int (length filtered) \<and>
           pg_totalPages (pp_pagination pg) =
             Finite \<lceil>(of_int (int (length filtered)) :: rat) / of_int pageSize\<rceil> \<and>
           (\<lceil>(of_int (int (length filtered)) :: rat) / of_int pageSize\<rceil> < pageNum \<longrightarrow>
              pp_products pg = []) \<and>
           (1 \<le> pageNum \<longrightarrow>
              pp_products pg =
                take (nat pageSize) (drop (nat ((pageNum - 1) * pageSize))
                  (if q_sort q \<noteq> [] then sort_products lc (q_sort q) filtered else filtered))) \<and>
           (\<forall>other. \<exists>pg'.
              resp (get_products lc (q\<lparr>q_page := other\<rparr>) st sess) = Success 200 pg' \<and>
              pg_total (pp_pagination pg') = pg_total (pp_pagination pg) \<and>
              pg_totalPages (pp_pagination pg') = pg_totalPages (pp_pagination pg)) \<and>
           store_out (get_products lc q st sess) = st \<and>
           session_out (get_products lc q st sess) = sess \<and>
           writes (get_products lc q st sess) = []"
proof -
  define listing where
    "listing = (if q_sort q \<noteq> [] then sort_products lc (q_sort q) filtered else filtered)"
  have len: "length listing = length filtered"
    by (simp add: listing_def length_sort_products)
  have out: "get_products lc q st sess =
               \<lparr>resp = Success 200 (paginate listing (q_limit q) (q_page q)),
                store_out = st, session_out = sess, writes = []\<rparr>"
    by (simp add: get_products_def Let_def listing_def filtered_def)
  have other: "get_products lc (q\<lparr>q_page := p\<rparr>) st sess =
               \<lparr>resp = Success 200 (paginate listing (q_limit q) p),
                store_out = st, session_out = sess, writes = []\<rparr>" for p
    unfolding get_products_def filter_products_page
    by (simp add: Let_def listing_def filtered_def)
  have meta: "pg_total (pp_pagination (paginate listing (q_limit q) p)) = int (length filtered)"
    "pg_totalPages (pp_pagination (paginate listing (q_limit q) p)) =
       Finite \<lceil>(of_int (int (length filtered)) :: rat) / of_int pageSize\<rceil>" for p
    using assms(4) by (simp_all add: paginate_def Let_def len total_pages_def pageSize_def)
  have items: "pp_products (paginate listing (q_limit q) (q_page q)) =
                 slice listing ((pageNum - 1) * pageSize) ((pageNum - 1) * pageSize + pageSize)"
    by (simp add: paginate_def Let_def pageSize_def pageNum_def)
  have beyond: "pp_products (paginate listing (q_limit q) (q_page q)) = []"
    if "\<lceil>(of_int (int (length filtered)) :: rat) / of_int pageSize\<rceil> < pageNum"
    unfolding items using beyond_last_page [OF assms(4) that] by (simp add: slice_from_end len)
  have inside: "pp_products (paginate listing (q_limit q) (q_page q)) =
                  take (nat pageSize) (drop (nat ((pageNum - 1) * pageSize)) listing)"
    if "1 \<le> pageNum"
    unfolding items using that assms(4) by (intro slice_page) simp_all
  have "resp (get_products lc q st sess) = Success 200 (paginate listing (q_limit q) (q_page q))"
    by (simp add: out)
  then show ?thesis
    using meta beyond inside unfolding listing_def [symmetric]
    by (intro exI [of _ "paginate listing (q_limit q) (q_page q)"]) (simp add: other out)
qed

theorem catalog_pagination_witness:
  "\<exists>pg. resp (get_products ex_localeCompare ex_query_beyond ex_store10 ex_session) =
           Success 200 pg \<and>
         pg_total (pp_pagination pg) = 10 \<and>
         pg_totalPages (pp_pagination pg) = Finite 3 \<and>
         pp_products pg = []"
proof -
  have size: "0 < (case q_limit ex_query_beyond of None \<Rightarrow> 12 | Some l \<Rightarrow> l)"
    by (simp add: ex_query_beyond_def)
  have lim: "(case q_limit ex_query_beyond of None \<Rightarrow> 12 | Some l \<Rightarrow> l) = 4"
    and page: "(case q_page ex_query_beyond of None \<Rightarrow> 1 | Some n \<Rightarrow> n) = 4"
    by (simp_all add: ex_query_beyond_def)
  have len: "length (filter_products ex_query_beyond (readData (products_json ex_store10))) = 10"
    by (simp add: filter_products_def ex_query_beyond_def ex_query_def ex_store10_def
        readData_def)
  have pages: "\<lceil>(of_int (int 10) :: rat) / of_int 4\<rceil> = 3"
    by (rule ceiling_unique) simp_all
  from catalog_pagination [OF size, of ex_localeCompare ex_store10 ex_session]
  obtain pg where
    "resp (get_products ex_localeCompare ex_query_beyond ex_store10 ex_session) = Success 200 pg"
    "pg_total (pp_pagination pg) = int 10"
    "pg_totalPages (pp_pagination pg) = Finite 3"
    "3 < (4::int) \<longrightarrow> pp_products pg = []"
    unfolding lim page len pages by blast
  then show ?thesis by simp
qed

text \<open>
  Claim C6 as stated fails for a negative page size: with ten products, \<open>limit=-5\<close> and
  \<open>page=1\<close> the response has \<open>totalPages = -2\<close>, so page 1 is beyond it, and yet
  carries five products (\<open>slice(0, -5)\<close> counts its end from the back of the array).
\<close>

theorem catalog_pagination_counterexample:
  "resp (get_products ex_localeCompare ex_query ex_store10 ex_session) =
     Success 200
       \<lparr>pp_products = replicate 5 ex_P1,
        pp_pagination = \<lparr>pg_total = 10, pg_page = 1, pg_pageSize = - 5,
                          pg_totalPages = Finite (- 2)\<rparr>\<rparr> \<and>
   (- 2 :: int) < 1 \<and> replicate 5 ex_P1 \<noteq> []"
  by code_simp

section \<open>Product update\<close>

lemma updatedProduct_fields:
  "updatedProduct stored body now ''id'' = stored ''id''"
  "updatedProduct stored body now ''createdAt'' = stored ''createdAt''"
  "updatedProduct stored body now ''updatedAt'' = Some (JString now)"
  by (simp_all add: updatedProduct_def)

lemma updatedProduct_other:
  assumes "k \<noteq> ''id''" and "k \<noteq> ''createdAt''" and "k \<noteq> ''updatedAt''"
  shows "updatedProduct stored body now k = (case body k of None \<Rightarrow> stored k | Some v \<Rightarrow> Some v)"
  using assms by (simp add: updatedProduct_def map_add_def)

text \<open>
  Claim C9. For every request of an administrator that names a stored product, whatever
  the body holds, the updated product has the \<open>id\<close> and the \<open>createdAt\<close> of the stored
  one (also when the body supplies other values for them) and \<open>updatedAt\<close> set to the
  current timestamp; every other key has the value the body supplies for it, and the
  stored value when the body has none. The response carries the updated product, and the
  file, when the write goes through, has it in the place of the stored one.
\<close>

theorem update_product_keeps_id_and_createdAt:
  assumes "user sess = Some u" and "u_role u = ''admin''"
    and "find (\<lambda>p. p ''id'' = Some (JString pid)) (readData file) = Some stored"
  shows "\<exists>upd i.
           resp (update_product fs_ok now pid body file sess) = Success 200 upd \<and>
           upd ''id'' = stored ''id'' \<and> upd ''id'' = Some (JString pid) \<and>
           upd ''createdAt'' = stored ''createdAt'' \<and>
           upd ''updatedAt'' = Some (JString now) \<and>
           (\<forall>k. k \<noteq> ''id'' \<and> k \<noteq> ''createdAt'' \<and> k \<noteq> ''updatedAt'' \<longrightarrow>
                upd k = (case body k of None \<Rightarrow> stored k | Some v \<Rightarrow> Some v)) \<and>
           i < length (readData file) \<and> readData file ! i = stored \<and>
           store_out (update_product fs_ok now pid body file sess) =
             (if fs_ok then Some ((readData file)[i := upd]) else file) \<and>
           session_out (update_product fs_ok now pid body file sess) = sess \<and>
           writes (update_product fs_ok now pid body file sess) = [PRODUCTS_FILE]"
proof -
  from assms(3) obtain i where
    i: "findIndex (\<lambda>p. p ''id'' = Some (JString pid)) (readData file) = Some i"
    and at: "readData file ! i = stored"
    by (auto simp: find_findIndex)
  from findIndex_SomeD [OF i] at have len: "i < length (readData file)"
    and sid: "stored ''id'' = Some (JString pid)" by auto
  let ?upd = "updatedProduct stored body now"
  have out: "update_product fs_ok now pid body file sess =
               \<lparr>resp = Success 200 ?upd,
                store_out = fst (writeData fs_ok file ((readData file)[i := ?upd])),
                session_out = sess, writes = [PRODUCTS_FILE]\<rparr>"
    using assms(1,2) i at by (simp add: update_product_def requireAdmin_def Let_def)
  have "resp (update_product fs_ok now pid body file sess) = Success 200 ?upd \<and>
        ?upd ''id'' = stored ''id'' \<and> ?upd ''id'' = Some (JString pid) \<and>
        ?upd ''createdAt'' = stored ''createdAt'' \<and>
        ?upd ''updatedAt'' = Some (JString now) \<and>
        (\<forall>k. k \<noteq> ''id'' \<and> k \<noteq> ''createdAt'' \<and> k \<noteq> ''updatedAt'' \<longrightarrow>
             ?upd k = (case body k of None \<Rightarrow> stored k | Some v \<Rightarrow> Some v)) \<and>
        i < length (readData file) \<and> readData file ! i = stored \<and>
        store_out (update_product fs_ok now pid body file sess) =
          (if fs_ok then Some ((readData file)[i := ?upd]) else file) \<and>
        session_out (update_product fs_ok now pid body file sess) = sess \<and>
        writes (update_product fs_ok now pid body file sess) = [PRODUCTS_FILE]"
    using len at sid
    by (simp add: out updatedProduct_fields updatedProduct_other writeData_def)
  then show ?thesis by blast
qed

theorem update_product_keeps_id_and_createdAt_witness:
  "\<exists>upd. resp (update_product True ''2024-06-01T12:00:00.000Z'' ''P1'' ex_patch
                 (Some [ex_product_object]) ex_admin_session) = Success 200 upd \<and>
         upd ''id'' = Some (JString ''P1'') \<and>
         upd ''createdAt'' = Some (JString ''2024-01-01T00:00:00.000Z'') \<and>
         upd ''price'' = Some (JNumber 40) \<and>
         upd ''name'' = Some (JString ''Lamp'')"
proof -
  have u: "user ex_admin_session =
             Some \<lparr>u_id = ''U0'', u_name = ''Root'', u_email = ''root@example.org'',
                   u_role = ''admin''\<rparr>"
    by (simp add: ex_admin_session_def)
  have role: "u_role \<lparr>u_id = ''U0'', u_name = ''Root'', u_email = ''root@example.org'',
                      u_role = ''admin''\<rparr> = ''admin''" by simp
  have f: "find (\<lambda>p. p ''id'' = Some (JString ''P1'')) (readData (Some [ex_product_object])) =
             Some ex_product_object"
    by (simp add: readData_def ex_product_object_def)
  have price: "(case ex_patch ''price'' of None \<Rightarrow> ex_product_object ''price''
                | Some v \<Rightarrow> Some v) = Some (JNumber 40)"
    by (simp add: ex_patch_def)
  have name: "(case ex_patch ''name'' of None \<Rightarrow> ex_product_object ''name''
               | Some v \<Rightarrow> Some v) = Some (JString ''Lamp'')"
    by (simp add: ex_patch_def ex_product_object_def)
  have created: "ex_product_object ''createdAt'' = Some (JString ''2024-01-01T00:00:00.000Z'')"
    by (simp add: ex_product_object_def)
  have k1: "''price'' \<noteq> ''id'' \<and> ''price'' \<noteq> ''createdAt'' \<and> ''price'' \<noteq> ''updatedAt''"
    by simp
  have k2: "''name'' \<noteq> ''id'' \<and> ''name'' \<noteq> ''createdAt'' \<and> ''name'' \<noteq> ''updatedAt''"
    by simp
  from update_product_keeps_id_and_createdAt
    [OF u role f, of True "''2024-06-01T12:00:00.000Z''" ex_patch]
  obtain upd where
    r: "resp (update_product True ''2024-06-01T12:00:00.000Z'' ''P1'' ex_patch
               (Some [ex_product_object]) ex_admin_session) = Success 200 upd"
    and ident: "upd ''id'' = Some (JString ''P1'')"
    and same: "upd ''createdAt'' = ex_product_object ''createdAt''"
    and rest: "\<forall>k. k \<noteq> ''id'' \<and> k \<noteq> ''createdAt'' \<and> k \<noteq> ''updatedAt'' \<longrightarrow>
                 upd k = (case ex_patch k of None \<Rightarrow> ex_product_object k | Some v \<Rightarrow> Some v)"
    by (elim exE conjE)
  from rest [rule_format, OF k1] have p: "upd ''price'' = Some (JNumber 40)"
    by (simp only: price)
  from rest [rule_format, OF k2] have n: "upd ''name'' = Some (JString ''Lamp'')"
    by (simp only: name)
  from same have c: "upd ''createdAt'' = Some (JString ''2024-01-01T00:00:00.000Z'')"
    by (simp only: created)
  from r ident c p n show ?thesis by (intro exI [of _ upd] conjI)
qed

end
